theory Spec2Isabelle
  imports Main
begin

section \<open>PyLog: a leveled console and file logger\<close>

text \<open>
  The development embeds \<^verbatim>\<open>src/logger.py\<close>. The class \<^verbatim>\<open>Logger\<close> becomes a record
  of its mutable attributes, the console and the file system become a record \<open>world\<close>,
  and each public method takes the logger and the world and returns its outcome together
  with the logger and the world it leaves behind, so that what a raised exception leaves
  behind is visible too.
\<close>

subsection \<open>Values, exceptions, outcomes\<close>

text \<open>
  \<^verbatim>\<open>class LogLevel(Enum)\<close> has the three members \<^verbatim>\<open>Info\<close>, \<^verbatim>\<open>Warning\<close>, \<^verbatim>\<open>Error\<close>
  (with the values \<^verbatim>\<open>(0,)\<close>, \<^verbatim>\<open>(1,)\<close> and \<^verbatim>\<open>2\<close>, pairwise different, so no member
  is an alias of another).
\<close>

datatype LogLevel = Info | Warning | Error

text \<open>
  Python checks no annotation: where the source expects a \<^verbatim>\<open>LogLevel\<close> a caller can
  hand over any object. \<open>pyval\<close> lists the kinds of object the model distinguishes. An
  enum member is equal to itself only, hence the derived equality of the datatype is
  Python's \<^verbatim>\<open>==\<close> on these values.
\<close>

datatype pyval = Level LogLevel | PyNone | PyStr string | PyInt int

datatype error = ValueError

datatype 'a result = Return 'a | Raise error

subsection \<open>Characters and the styling constants\<close>

text \<open>
  A Python string is modelled by a \<open>string\<close>, a list of 8-bit characters compared by
  their codes. No class of the pattern below reaches beyond code 126, so a character
  with a larger code is treated as any other character outside the classes is.
\<close>

definition ESC :: char where
  "ESC = CHR 0x1B"

definition NL :: char where
  "NL = CHR 0x0A"

text \<open>
  The five styling attributes are assigned once, in \<^verbatim>\<open>__init__\<close>, from literals and
  nowhere else; they are constants of the model.
\<close>

definition RESET :: string where
  "RESET = ESC # ''[0m''"

definition RED :: string where
  "RED = ESC # ''[0;31m''"

definition BLUE :: string where
  "BLUE = ESC # ''[0;36m''"

definition YELLOW :: string where
  "YELLOW = ESC # ''[0;33m''"

definition BOLD :: string where
  "BOLD = ESC # ''[1m''"


subsection \<open>The logger and its environment\<close>

text \<open>
  \<^verbatim>\<open>datetime.now()\<close> yields an object whose \<^verbatim>\<open>day\<close>, \<^verbatim>\<open>month\<close> and \<^verbatim>\<open>year\<close> are
  Python integers; only these three attributes are read by the logger.
\<close>

record datetime =
  day :: int
  month :: int
  year :: int

text \<open>
  The ranges \<^verbatim>\<open>datetime\<close> guarantees for its attributes
  (\<^verbatim>\<open>MINYEAR = 1\<close>, \<^verbatim>\<open>MAXYEAR = 9999\<close>).
\<close>

definition date_in_range :: "datetime \<Rightarrow> bool" where
  "date_in_range d =
     (1 \<le> day d \<and> day d \<le> 31 \<and> 1 \<le> month d \<and> month d \<le> 12 \<and> 1 \<le> year d \<and> year d \<le> 9999)"

text \<open>
  The attributes \<^verbatim>\<open>log_level\<close>, \<^verbatim>\<open>_log_to_file\<close>, \<^verbatim>\<open>_date\<close> and \<^verbatim>\<open>_filename\<close>.
\<close>

record logger =
  log_level :: pyval
  log_to_file :: bool
  date :: datetime
  filename :: string

text \<open>
  The environment: the bytes written to standard output so far, and the files by path.
  Opening, writing, removing and printing are taken to succeed; failures of the operating
  system (permissions, a full disk) are outside the model.
\<close>

record world =
  stdout :: string
  files :: "string \<rightharpoonup> string"

text \<open>
  \<^verbatim>\<open>__init__(self, log_level=LogLevel.Info, log_to_file=False)\<close>: an omitted argument
  is \<open>None\<close>; the clock reading of \<^verbatim>\<open>datetime.now()\<close> is the parameter \<open>now\<close>.
\<close>

definition init :: "pyval option \<Rightarrow> bool option \<Rightarrow> datetime \<Rightarrow> logger" where
  "init lvl to_file now =
     \<lparr> log_level = (case lvl of None \<Rightarrow> Level Info | Some v \<Rightarrow> v),
       log_to_file = (case to_file of None \<Rightarrow> False | Some b \<Rightarrow> b),
       date = now,
       filename = ''logs.txt'' \<rparr>"

subsection \<open>Library functions the source calls\<close>

text \<open>\<^verbatim>\<open>str\<close> on an integer: its decimal numeral, with a minus sign when negative.\<close>

definition digit_char :: "nat \<Rightarrow> char" where
  "digit_char d = ''0123456789'' ! (d mod 10)"

function str_nat :: "nat \<Rightarrow> string" where
  "str_nat n = (if n < 10 then [digit_char n] else str_nat (n div 10) @ [digit_char (n mod 10)])"
  by pat_completeness auto
termination
  by (relation "measure (\<lambda>n. n)") auto

declare str_nat.simps [simp del]

definition py_str :: "int \<Rightarrow> string" where
  "py_str i = (if i < 0 then CHR ''-'' # str_nat (nat (- i)) else str_nat (nat i))"

text \<open>
  \<^verbatim>\<open>int\<close> on a string, for the strings \<^verbatim>\<open>str\<close> can produce: an optional minus sign and
  at least one decimal digit. Python accepts more (surrounding blanks, a plus sign,
  underscores, other scripts' digits); the source applies \<^verbatim>\<open>int\<close> to results of
  \<^verbatim>\<open>str\<close> only, and every other string raises \<^verbatim>\<open>ValueError\<close> here.
\<close>

definition digit_val :: "char \<Rightarrow> nat option" where
  "digit_val c =
     (if (48::nat) \<le> of_char c \<and> of_char c \<le> (57::nat) then Some (of_char c - 48) else None)"

fun parse_digits :: "nat \<Rightarrow> string \<Rightarrow> nat option" where
  "parse_digits acc [] = Some acc"
| "parse_digits acc (c # cs) =
     (case digit_val c of None \<Rightarrow> None | Some d \<Rightarrow> parse_digits (10 * acc + d) cs)"

definition py_int :: "string \<Rightarrow> int result" where
  "py_int s =
     (case s of
        [] \<Rightarrow> Raise ValueError
      | c # cs \<Rightarrow>
          if c = CHR ''-'' then
            (if cs = [] then Raise ValueError
             else case parse_digits 0 cs of
                    None \<Rightarrow> Raise ValueError
                  | Some n \<Rightarrow> Return (- int n))
          else
            (case parse_digits 0 s of
               None \<Rightarrow> Raise ValueError
             | Some n \<Rightarrow> Return (int n)))"

text \<open>
  \<^verbatim>\<open>str.upper\<close>, for ASCII: the source applies it to the three labels only.
\<close>

definition upper_char :: "char \<Rightarrow> char" where
  "upper_char c =
     (case map_of (zip ''abcdefghijklmnopqrstuvwxyz'' ''ABCDEFGHIJKLMNOPQRSTUVWXYZ'') c of
        None \<Rightarrow> c
      | Some u \<Rightarrow> u)"

definition upper :: "string \<Rightarrow> string" where
  "upper s = map upper_char s"

subsection \<open>The regular expression of \<^verbatim>\<open>__strip_format\<close>\<close>

text \<open>
  The pattern is \<^verbatim>\<open>\x1B(?:[@-Z\\-_]|\[[0-?]*[ -/]*[@-~])\<close>: the escape character, then
  one of two alternatives, each a sequence of single characters and greedy repetitions
  of character classes. A class is a list of inclusive ranges of code points.
\<close>

type_synonym cls = "(char \<times> char) list"

fun in_cls :: "cls \<Rightarrow> char \<Rightarrow> bool" where
  "in_cls [] c = False"
| "in_cls ((lo, hi) # rs) c =
     (((of_char lo :: nat) \<le> of_char c \<and> (of_char c :: nat) \<le> of_char hi) \<or> in_cls rs c)"

datatype atom = One cls | Star cls


text \<open>
  Matching a sequence of atoms at the start of a string, as the backtracking engine of
  \<^verbatim>\<open>re\<close> does: a repetition first takes one more character and gives it back when the
  rest of the pattern then fails. The result is the number of characters matched.
\<close>

fun match_seq :: "atom list \<Rightarrow> string \<Rightarrow> nat option" where
  "match_seq [] s = Some 0"
| "match_seq (One k # as) [] = None"
| "match_seq (One k # as) (c # cs) =
     (if in_cls k c then map_option Suc (match_seq as cs) else None)"
| "match_seq (Star k # as) [] = match_seq as []"
| "match_seq (Star k # as) (c # cs) =
     (if in_cls k c then
        (case match_seq (Star k # as) cs of
           Some n \<Rightarrow> Some (Suc n)
         | None \<Rightarrow> match_seq as (c # cs))
      else match_seq as (c # cs))"

text \<open>Alternatives are tried from left to right; the first that matches wins.\<close>

fun match_alt :: "atom list list \<Rightarrow> string \<Rightarrow> nat option" where
  "match_alt [] s = None"
| "match_alt (b # bs) s =
     (case match_seq b s of Some n \<Rightarrow> Some n | None \<Rightarrow> match_alt bs s)"

definition fe_class :: cls where
  "fe_class = [(CHR ''@'', CHR ''Z''), (CHR 0x5C, CHR ''_'')]"

definition param_class :: cls where
  "param_class = [(CHR ''0'', CHR ''?'')]"

definition inter_class :: cls where
  "inter_class = [(CHR '' '', CHR ''/'')]"

definition final_class :: cls where
  "final_class = [(CHR ''@'', CHR ''~'')]"

definition escape_alts :: "atom list list" where
  "escape_alts =
     [[One fe_class],
      [One [(CHR ''['', CHR ''['')], Star param_class, Star inter_class, One final_class]]"

text \<open>\<^verbatim>\<open>escape.match\<close> at the start of a string: the length of the match, if any.\<close>

definition match_escape :: "string \<Rightarrow> nat option" where
  "match_escape s =
     (case s of
        [] \<Rightarrow> None
      | c # cs \<Rightarrow> if c = ESC then map_option Suc (match_alt escape_alts cs) else None)"

text \<open>
  \<^verbatim>\<open>escape.sub('', s)\<close>: scanning from the left, a match is dropped and the scan goes on
  behind it; a character where no match starts is kept. (A match of this pattern has at
  least two characters; an empty match would be replaced by the empty string, which
  keeps the character as well.)
\<close>

function sub_escape :: "string \<Rightarrow> string" where
  "sub_escape [] = []"
| "sub_escape (c # cs) =
     (case match_escape (c # cs) of
        None \<Rightarrow> c # sub_escape cs
      | Some 0 \<Rightarrow> c # sub_escape cs
      | Some (Suc n) \<Rightarrow> sub_escape (drop n cs))"
  by pat_completeness auto
termination
  by (relation "measure length") auto

subsection \<open>Private methods\<close>

text \<open>
  \<^verbatim>\<open>__log_level_to_string(self, log_level=None)\<close>; the \<^verbatim>\<open>match\<close> compares with
  \<^verbatim>\<open>==\<close> and falls through to \<^verbatim>\<open>return 'info'\<close>.
\<close>

definition log_level_to_string :: "logger \<Rightarrow> pyval \<Rightarrow> string" where
  "log_level_to_string lg lvl =
     (let level = (if lvl = PyNone then log_level lg else lvl) in
      if level = Level Info then ''info''
      else if level = Level Warning then ''warning''
      else if level = Level Error then ''error''
      else ''info'')"

definition format_date :: "logger \<Rightarrow> string result" where
  "format_date lg =
     (let day0 = py_str (day (date lg));
          month0 = py_str (month (date lg))
      in case py_int day0 of
           Raise e \<Rightarrow> Raise e
         | Return d \<Rightarrow>
             (let day1 = (if d < 10 then ''0'' @ day0 else day0)
              in case py_int month0 of
                   Raise e \<Rightarrow> Raise e
                 | Return m \<Rightarrow>
                     (let month1 = (if m < 10 then ''0'' @ month0 else month0)
                      in Return (day1 @ ''/'' @ month1 @ ''/'' @ py_str (year (date lg))))))"

definition strip_format :: "string \<Rightarrow> string" where
  "strip_format input_string = sub_escape input_string"

definition get_format :: "logger \<Rightarrow> string \<Rightarrow> pyval \<Rightarrow> string result" where
  "get_format lg color lvl =
     (case format_date lg of
        Raise e \<Rightarrow> Raise e
      | Return d \<Rightarrow>
          Return (color @ BOLD @ ''['' @ d @ ''] '' @ upper (log_level_to_string lg lvl)
                  @ '':'' @ RESET @ color))"

text \<open>
  \<^verbatim>\<open>open(self._filename, 'a+')\<close> creates the file when it is absent and writes at its
  end; the block writes one string and closes the file.
\<close>

definition write_to_file :: "logger \<Rightarrow> string \<Rightarrow> world \<Rightarrow> world" where
  "write_to_file lg fmt w =
     (let old = (case files w (filename lg) of None \<Rightarrow> [] | Some content \<Rightarrow> content)
      in w\<lparr>files := (files w)(filename lg \<mapsto> old @ strip_format fmt @ [NL])\<rparr>)"

text \<open>\<^verbatim>\<open>print(s)\<close> writes \<open>s\<close> and a newline to standard output.\<close>

definition py_print :: "string \<Rightarrow> world \<Rightarrow> world" where
  "py_print s w = w\<lparr>stdout := stdout w @ s @ [NL]\<rparr>"

subsection \<open>Public methods\<close>

type_synonym outcome = "unit result \<times> logger \<times> world"

definition reset :: "logger \<Rightarrow> world \<Rightarrow> outcome" where
  "reset lg w = (Return (), lg\<lparr>log_level := Level Info\<rparr>, w)"

definition info :: "string \<Rightarrow> logger \<Rightarrow> world \<Rightarrow> outcome" where
  "info fmt lg w =
     (let w1 = (if log_to_file lg then write_to_file lg fmt w else w)
      in case get_format lg BLUE (Level Info) of
           Raise e \<Rightarrow> (Raise e, lg, w1)
         | Return p \<Rightarrow> (Return (), lg, py_print RESET (py_print (p @ '' '' @ fmt) w1)))"

definition warning :: "string \<Rightarrow> logger \<Rightarrow> world \<Rightarrow> outcome" where
  "warning fmt lg w =
     (let w1 = (if log_to_file lg then write_to_file lg fmt w else w)
      in case get_format lg YELLOW (Level Warning) of
           Raise e \<Rightarrow> (Raise e, lg, w1)
         | Return p \<Rightarrow> (Return (), lg, py_print RESET (py_print (p @ '' '' @ fmt) w1)))"

definition error :: "string \<Rightarrow> logger \<Rightarrow> world \<Rightarrow> outcome" where
  "error fmt lg w =
     (let w1 = (if log_to_file lg then write_to_file lg fmt w else w)
      in case get_format lg RED (Level Error) of
           Raise e \<Rightarrow> (Raise e, lg, w1)
         | Return p \<Rightarrow> (Return (), lg, py_print RESET (py_print (p @ '' '' @ fmt) w1)))"

text \<open>\<^verbatim>\<open>log\<close>: the last case, \<^verbatim>\<open>case other: pass\<close>, takes every other value.\<close>

definition log :: "string \<Rightarrow> logger \<Rightarrow> world \<Rightarrow> outcome" where
  "log fmt lg w =
     (if log_level lg = Level Info then info fmt lg w
      else if log_level lg = Level Warning then warning fmt lg w
      else if log_level lg = Level Error then error fmt lg w
      else (Return (), lg, w))"

definition set_level :: "pyval \<Rightarrow> logger \<Rightarrow> world \<Rightarrow> outcome" where
  "set_level lvl lg w =
     (if \<not> List.member [Level Info, Level Warning, Level Error] lvl
      then (Raise ValueError, lg, w)
      else (Return (), lg\<lparr>log_level := lvl\<rparr>, w))"

definition enable_file_logging :: "logger \<Rightarrow> world \<Rightarrow> outcome" where
  "enable_file_logging lg w = (Return (), lg\<lparr>log_to_file := True\<rparr>, w)"

definition disable_file_logging :: "logger \<Rightarrow> world \<Rightarrow> outcome" where
  "disable_file_logging lg w = (Return (), lg\<lparr>log_to_file := False\<rparr>, w)"

text \<open>
  \<^verbatim>\<open>clean_logs\<close>: \<^verbatim>\<open>os.path.exists\<close> asks whether the path is bound,
  \<^verbatim>\<open>os.remove\<close> unbinds it.
\<close>

definition clean_logs :: "logger \<Rightarrow> world \<Rightarrow> outcome" where
  "clean_logs lg w =
     (if files w (filename lg) \<noteq> None
      then (Return (), lg, w\<lparr>files := (files w)(filename lg := None)\<rparr>)
      else (Return (), lg, w))"

subsection \<open>Callers\<close>

text \<open>
  A caller is a sequence of calls of the public methods on one logger, run in order and
  cut short by the first exception, as a Python block of such statements is.
\<close>

datatype call =
    Reset
  | Log string
  | Info_msg string
  | Warning_msg string
  | Error_msg string
  | Set_level pyval
  | Enable_file_logging
  | Disable_file_logging
  | Clean_logs

fun do_call :: "call \<Rightarrow> logger \<Rightarrow> world \<Rightarrow> outcome" where
  "do_call Reset lg w = reset lg w"
| "do_call (Log m) lg w = log m lg w"
| "do_call (Info_msg m) lg w = info m lg w"
| "do_call (Warning_msg m) lg w = warning m lg w"
| "do_call (Error_msg m) lg w = error m lg w"
| "do_call (Set_level v) lg w = set_level v lg w"
| "do_call Enable_file_logging lg w = enable_file_logging lg w"
| "do_call Disable_file_logging lg w = disable_file_logging lg w"
| "do_call Clean_logs lg w = clean_logs lg w"

fun run :: "call list \<Rightarrow> logger \<Rightarrow> world \<Rightarrow> outcome" where
  "run [] lg w = (Return (), lg, w)"
| "run (c # cs) lg w =
     (case do_call c lg w of
        (Return u, lg', w') \<Rightarrow> run cs lg' w'
      | (Raise e, lg', w') \<Rightarrow> (Raise e, lg', w'))"

text \<open>The calls that are meant to change the level, and those meant to change the logger.\<close>

fun sets_level :: "call \<Rightarrow> bool" where
  "sets_level Reset = True"
| "sets_level (Set_level v) = True"
| "sets_level c = False"

fun keep_level :: "call list \<Rightarrow> bool" where
  "keep_level [] = True"
| "keep_level (c # cs) = (\<not> sets_level c \<and> keep_level cs)"

fun mutator :: "call \<Rightarrow> bool" where
  "mutator Reset = True"
| "mutator (Set_level v) = True"
| "mutator Enable_file_logging = True"
| "mutator Disable_file_logging = True"
| "mutator c = False"

subsection \<open>The specification's wording of the formatting helpers\<close>

text \<open>
  Padding with zeros on the left to two characters, as the specification describes the
  day and the month; the source has no such function, it prepends \<^verbatim>\<open>'0'\<close> below ten.
\<close>

definition zero_pad2 :: "string \<Rightarrow> string" where
  "zero_pad2 s = replicate (2 - length s) CHR ''0'' @ s"

section \<open>Auxiliary facts\<close>

lemma digit_val_digit_char: "d < 10 \<Longrightarrow> digit_val (digit_char d) = Some d"
proof -
  assume "d < 10"
  then consider "d = 0" | "d = 1" | "d = 2" | "d = 3" | "d = 4" | "d = 5" | "d = 6" | "d = 7" | "d = 8" | "d = 9"
    by atomize_elim presburger
  then show ?thesis
    by cases (simp_all add: digit_val_def digit_char_def)
qed

lemma digit_char_not_ESC: "digit_char d \<noteq> ESC"
proof -
  have "d mod 10 < 10" by simp
  then consider "d mod 10 = 0" | "d mod 10 = 1" | "d mod 10 = 2" | "d mod 10 = 3" | "d mod 10 = 4" | "d mod 10 = 5" | "d mod 10 = 6" | "d mod 10 = 7" | "d mod 10 = 8" | "d mod 10 = 9"
    by atomize_elim presburger
  then show ?thesis
    by cases (simp_all add: digit_char_def ESC_def)
qed

lemma parse_digits_append:
  "parse_digits acc (xs @ ys) =
     (case parse_digits acc xs of None \<Rightarrow> None | Some a \<Rightarrow> parse_digits a ys)"
  by (induction xs arbitrary: acc) (auto split: option.splits)

lemma parse_digits_str_nat: "parse_digits 0 (str_nat n) = Some n"
proof (induction n rule: str_nat.induct)
  case (1 n)
  show ?case
  proof (cases "n < 10")
    case True
    then show ?thesis
      by (simp add: str_nat.simps [of n] digit_val_digit_char)
  next
    case False
    with 1 have "parse_digits 0 (str_nat (n div 10)) = Some (n div 10)"
      by simp
    with False show ?thesis
      by (simp add: str_nat.simps [of n] parse_digits_append digit_val_digit_char)
  qed
qed

lemma str_nat_not_Nil: "str_nat n \<noteq> []"
  by (simp add: str_nat.simps [of n])

lemma ESC_notin_str_nat: "ESC \<notin> set (str_nat n)"
proof (induction n rule: str_nat.induct)
  case (1 n)
  then show ?case
    using digit_char_not_ESC [of n] digit_char_not_ESC [of "n mod 10"]
    by (cases "n < 10") (auto simp add: str_nat.simps [of n])
qed

lemma hd_str_nat_digit: "\<exists>c cs. str_nat n = c # cs \<and> c \<noteq> CHR ''-''"
proof -
  obtain c cs where e: "str_nat n = c # cs"
    using str_nat_not_Nil by (cases "str_nat n") auto
  have "parse_digits 0 (c # cs) = Some n"
    using parse_digits_str_nat [of n] e by simp
  then have "c \<noteq> CHR ''-''"
    by (auto simp add: digit_val_def)
  with e show ?thesis by blast
qed

lemma py_int_str_nat: "py_int (str_nat n) = Return (int n)"
proof -
  obtain c cs where e: "str_nat n = c # cs" and c: "c \<noteq> CHR ''-''"
    using hd_str_nat_digit by blast
  have "parse_digits 0 (c # cs) = Some n"
    using parse_digits_str_nat [of n] e by simp
  with e c show ?thesis
    by (simp add: py_int_def)
qed

lemma py_int_py_str: "py_int (py_str i) = Return i"
proof (cases "i < 0")
  case True
  then show ?thesis
    by (simp add: py_int_def py_str_def str_nat_not_Nil parse_digits_str_nat)
next
  case False
  then show ?thesis
    by (simp add: py_str_def py_int_str_nat)
qed

lemma ESC_notin_py_str: "ESC \<notin> set (py_str i)"
  by (simp add: py_str_def ESC_notin_str_nat) (simp add: ESC_def)

lemma length_str_nat_one: "n < 10 \<Longrightarrow> length (str_nat n) = 1"
  by (simp add: str_nat.simps [of n])

lemma length_str_nat_two: "10 \<le> n \<Longrightarrow> n < 100 \<Longrightarrow> length (str_nat n) = 2"
  by (simp add: str_nat.simps [of n] length_str_nat_one)

lemma length_str_nat_ge_two: "10 \<le> n \<Longrightarrow> 2 \<le> length (str_nat n)"
  using str_nat_not_Nil [of "n div 10"]
  by (cases "str_nat (n div 10)") (simp_all add: str_nat.simps [of n])

lemma format_date_Return:
  "format_date lg =
     Return ((if day (date lg) < 10 then ''0'' @ py_str (day (date lg)) else py_str (day (date lg)))
             @ ''/'' @
             (if month (date lg) < 10 then ''0'' @ py_str (month (date lg)) else py_str (month (date lg)))
             @ ''/'' @ py_str (year (date lg)))"
  by (simp add: format_date_def py_int_py_str Let_def)

lemma upper_labels:
  "upper ''info'' = ''INFO''" "upper ''warning'' = ''WARNING''" "upper ''error'' = ''ERROR''"
  by (simp_all add: upper_def upper_char_def)










lemma format_date_total: "\<exists>d. format_date lg = Return d \<and> ESC \<notin> set d"
proof -
  have "ESC \<noteq> CHR ''0''" and "ESC \<noteq> CHR ''/''"
    by (simp_all add: ESC_def)
  then show ?thesis
    by (simp add: format_date_Return ESC_notin_py_str)
qed

lemma info_outcome:
  "format_date lg = Return d \<Longrightarrow>
   info msg lg w =
     (Return (), lg,
      py_print RESET (py_print (BLUE @ BOLD @ ''['' @ d @ ''] INFO:'' @ RESET @ BLUE @ '' '' @ msg)
        (if log_to_file lg then write_to_file lg msg w else w)))"
  by (simp add: info_def get_format_def log_level_to_string_def upper_labels)

lemma warning_outcome:
  "format_date lg = Return d \<Longrightarrow>
   warning msg lg w =
     (Return (), lg,
      py_print RESET (py_print (YELLOW @ BOLD @ ''['' @ d @ ''] WARNING:'' @ RESET @ YELLOW @ '' '' @ msg)
        (if log_to_file lg then write_to_file lg msg w else w)))"
  by (simp add: warning_def get_format_def log_level_to_string_def upper_labels)

lemma error_outcome:
  "format_date lg = Return d \<Longrightarrow>
   error msg lg w =
     (Return (), lg,
      py_print RESET (py_print (RED @ BOLD @ ''['' @ d @ ''] ERROR:'' @ RESET @ RED @ '' '' @ msg)
        (if log_to_file lg then write_to_file lg msg w else w)))"
  by (simp add: error_def get_format_def log_level_to_string_def upper_labels)

lemma py_print_fields:
  "stdout (py_print s w) = stdout w @ s @ [NL]" "files (py_print s w) = files w"
  by (simp_all add: py_print_def)

lemma write_to_file_fields:
  "stdout (write_to_file lg m w) = stdout w"
  "files (write_to_file lg m w) =
     (files w)(filename lg \<mapsto>
        (case files w (filename lg) of None \<Rightarrow> [] | Some content \<Rightarrow> content) @ strip_format m @ [NL])"
  by (simp_all add: write_to_file_def)







lemma format_date_level: "format_date (lg\<lparr>log_level := v\<rparr>) = format_date lg"
  by (simp add: format_date_Return)

text \<open>The equations that evaluate the model on concrete inputs.\<close>

lemmas eval_defs =
  init_def info_def warning_def error_def log_def get_format_def format_date_def
  log_level_to_string_def py_str_def py_int_def str_nat.simps digit_char_def digit_val_def
  upper_def upper_char_def write_to_file_def py_print_def strip_format_def
  match_escape_def escape_alts_def fe_class_def param_class_def inter_class_def final_class_def
  RESET_def BOLD_def BLUE_def RED_def YELLOW_def ESC_def NL_def

lemma emit_keeps_logger:
  "fst (snd (info msg lg w)) = lg" "fst (snd (warning msg lg w)) = lg"
  "fst (snd (error msg lg w)) = lg" "fst (snd (log msg lg w)) = lg"
proof -
  obtain d where d: "format_date lg = Return d"
    using format_date_total by blast
  show "fst (snd (info msg lg w)) = lg" "fst (snd (warning msg lg w)) = lg"
    "fst (snd (error msg lg w)) = lg"
    by (simp_all add: info_outcome [OF d] warning_outcome [OF d] error_outcome [OF d])
  then show "fst (snd (log msg lg w)) = lg"
    by (simp add: log_def)
qed

lemma emit_returns:
  "fst (info msg lg w) = Return ()" "fst (warning msg lg w) = Return ()"
  "fst (error msg lg w) = Return ()" "fst (log msg lg w) = Return ()"
proof -
  obtain d where d: "format_date lg = Return d"
    using format_date_total by blast
  show "fst (info msg lg w) = Return ()" "fst (warning msg lg w) = Return ()"
    "fst (error msg lg w) = Return ()"
    by (simp_all add: info_outcome [OF d] warning_outcome [OF d] error_outcome [OF d])
  then show "fst (log msg lg w) = Return ()"
    by (simp add: log_def)
qed

lemma do_call_keeps_level:
  "\<not> sets_level c \<Longrightarrow> log_level (fst (snd (do_call c lg w))) = log_level lg"
  by (cases c)
    (simp_all add: emit_keeps_logger enable_file_logging_def disable_file_logging_def
      clean_logs_def)

lemma run_keeps_level:
  "keep_level cs \<Longrightarrow> log_level (fst (snd (run cs lg w))) = log_level lg"
proof (induction cs arbitrary: lg w)
  case Nil
  show ?case by simp
next
  case (Cons c cs)
  obtain r lg' w' where o: "do_call c lg w = (r, lg', w')"
    by (cases "do_call c lg w") auto
  from Cons.prems have c: "\<not> sets_level c" and cs: "keep_level cs"
    by simp_all
  have l: "log_level lg' = log_level lg"
    using do_call_keeps_level [OF c, of lg w] o by simp
  show ?case
  proof (cases r)
    case (Return u)
    with o l Cons.IH [OF cs, of lg' w'] show ?thesis by simp
  next
    case (Raise e)
    with o l show ?thesis by simp
  qed
qed

lemma zero_pad2_py_str:
  assumes "0 \<le> i"
  shows "zero_pad2 (py_str i) = (if i < 10 then ''0'' @ py_str i else py_str i)"
proof (cases "i < 10")
  case True
  with assms have "length (py_str i) = 1"
    by (simp add: py_str_def length_str_nat_one)
  with True show ?thesis
    by (simp add: zero_pad2_def)
next
  case False
  with assms have "2 \<le> length (py_str i)"
    by (simp add: py_str_def length_str_nat_ge_two)
  with False show ?thesis
    by (simp add: zero_pad2_def)
qed

lemma length_zero_pad2_py_str:
  assumes "0 \<le> i" and "i < 100"
  shows "length (zero_pad2 (py_str i)) = 2"
proof (cases "i < 10")
  case True
  with assms show ?thesis
    by (simp add: zero_pad2_def py_str_def length_str_nat_one)
next
  case False
  with assms show ?thesis
    by (simp add: zero_pad2_def py_str_def length_str_nat_two)
qed



lemma format_date_in_range:
  assumes "date_in_range (date lg)"
  shows "format_date lg =
           Return (zero_pad2 (py_str (day (date lg))) @ ''/''
                   @ zero_pad2 (py_str (month (date lg))) @ ''/'' @ py_str (year (date lg)))"
proof -
  from assms have d: "0 \<le> day (date lg)" and m: "0 \<le> month (date lg)"
    by (simp_all add: date_in_range_def)
  show ?thesis
    by (simp only: format_date_Return zero_pad2_py_str [OF d] zero_pad2_py_str [OF m])
qed


section \<open>The claims\<close>

subsection \<open>C1: what mirroring writes to the log file\<close>

text \<open>
  C1, as stated, asks that with mirroring enabled a call of \<^verbatim>\<open>info\<close> appends the line
  \<open>[dd/mm/yyyy] INFO: message\<close> to the log file. The three emit methods pass their
  argument, the bare message, to \<^verbatim>\<open>__write_to_file\<close>: a logger created on 5 March 2024
  with mirroring enabled that logs \<open>hello\<close> into an empty file system leaves
  \<open>hello\<close> and a newline in \<^verbatim>\<open>logs.txt\<close>, not \<open>[05/03/2024] INFO: hello\<close>.
\<close>

theorem mirror_line_counterexample:
  "files (snd (snd (info ''hello''
      (init None (Some True) \<lparr>day = 5, month = 3, year = 2024\<rparr>)
      \<lparr>stdout = [], files = map_of []\<rparr>))) ''logs.txt''
     = Some (''hello'' @ [CHR 0x0A])
   \<and> files (snd (snd (info ''hello''
      (init None (Some True) \<lparr>day = 5, month = 3, year = 2024\<rparr>)
      \<lparr>stdout = [], files = map_of []\<rparr>))) ''logs.txt''
     \<noteq> Some (''[05/03/2024] INFO: hello'' @ [CHR 0x0A])"
  by (simp add: eval_defs)

text \<open>
  C1, amended. For every message, when mirroring is enabled, each call of \<^verbatim>\<open>info\<close>,
  \<^verbatim>\<open>warning\<close> or \<^verbatim>\<open>error\<close> binds the log file's path to its former content (empty
  when the file was absent) followed by the message with its escape sequences stripped
  and one newline; the date and the level label are not written to the file.
\<close>

theorem mirror_appends_stripped_message:
  assumes "log_to_file lg"
  shows "files (snd (snd (info msg lg w))) =
           (files w)(filename lg \<mapsto>
              (case files w (filename lg) of None \<Rightarrow> [] | Some content \<Rightarrow> content)
                @ strip_format msg @ [NL])
       \<and> files (snd (snd (warning msg lg w))) =
           (files w)(filename lg \<mapsto>
              (case files w (filename lg) of None \<Rightarrow> [] | Some content \<Rightarrow> content)
                @ strip_format msg @ [NL])
       \<and> files (snd (snd (error msg lg w))) =
           (files w)(filename lg \<mapsto>
              (case files w (filename lg) of None \<Rightarrow> [] | Some content \<Rightarrow> content)
                @ strip_format msg @ [NL])"
proof -
  obtain d where d: "format_date lg = Return d"
    using format_date_total by blast
  show ?thesis
    using assms
    by (simp add: info_outcome [OF d] warning_outcome [OF d] error_outcome [OF d]
        py_print_fields write_to_file_fields)
qed

theorem mirror_appends_stripped_message_witness:
  "log_to_file \<lparr>log_level = Level Info, log_to_file = True,
        date = \<lparr>day = 5, month = 3, year = 2024\<rparr>, filename = ''logs.txt''\<rparr>
   \<and> files (snd (snd (error (CHR 0x1B # ''[1mb'')
       \<lparr>log_level = Level Info, log_to_file = True,
        date = \<lparr>day = 5, month = 3, year = 2024\<rparr>, filename = ''logs.txt''\<rparr>
       \<lparr>stdout = [], files = map_of [(''logs.txt'', ''a'' @ [CHR 0x0A])]\<rparr>))) ''logs.txt''
     = Some (''a'' @ [CHR 0x0A] @ ''b'' @ [CHR 0x0A])"
  using mirror_appends_stripped_message
    [of "\<lparr>log_level = Level Info, log_to_file = True,
        date = \<lparr>day = 5, month = 3, year = 2024\<rparr>, filename = ''logs.txt''\<rparr>"
        "CHR 0x1B # ''[1mb''"
        "\<lparr>stdout = [], files = map_of [(''logs.txt'', ''a'' @ [CHR 0x0A])]\<rparr>"]
  by (simp add: eval_defs)

subsection \<open>C2: the console output of the three emit methods\<close>

text \<open>
  C2. For every message, every logger and every value \<open>v\<close> of its current level, each of
  \<^verbatim>\<open>info\<close>, \<^verbatim>\<open>warning\<close> and \<^verbatim>\<open>error\<close> returns normally and appends to standard
  output the line \<open>color bold [d] LEVEL: reset color, blank, message\<close>, then a line
  holding the reset code only. \<open>d\<close> is what \<^verbatim>\<open>__format_date\<close> returns for the logger,
  and for every date within the ranges of \<^verbatim>\<open>datetime\<close> it is the logger's creation date
  as \<open>dd/mm/yyyy\<close>: day and month padded with zeros to two characters, the year as it
  is. The label is INFO, WARNING or ERROR and the colour is blue, yellow or red according
  to the method called, whatever the current level \<open>v\<close> is. The last line of the
  statement fixes the five codes.
\<close>

theorem emit_console_output:
  "\<exists>d. format_date lg = Return d \<and>
     (date_in_range (date lg) \<longrightarrow>
        d = zero_pad2 (py_str (day (date lg))) @ ''/'' @ zero_pad2 (py_str (month (date lg)))
              @ ''/'' @ py_str (year (date lg))) \<and>
     fst (info msg (lg\<lparr>log_level := v\<rparr>) w) = Return () \<and>
     stdout (snd (snd (info msg (lg\<lparr>log_level := v\<rparr>) w))) =
       stdout w @ BLUE @ BOLD @ ''['' @ d @ ''] INFO:'' @ RESET @ BLUE @ '' '' @ msg @ [NL]
         @ RESET @ [NL] \<and>
     fst (warning msg (lg\<lparr>log_level := v\<rparr>) w) = Return () \<and>
     stdout (snd (snd (warning msg (lg\<lparr>log_level := v\<rparr>) w))) =
       stdout w @ YELLOW @ BOLD @ ''['' @ d @ ''] WARNING:'' @ RESET @ YELLOW @ '' '' @ msg @ [NL]
         @ RESET @ [NL] \<and>
     fst (error msg (lg\<lparr>log_level := v\<rparr>) w) = Return () \<and>
     stdout (snd (snd (error msg (lg\<lparr>log_level := v\<rparr>) w))) =
       stdout w @ RED @ BOLD @ ''['' @ d @ ''] ERROR:'' @ RESET @ RED @ '' '' @ msg @ [NL]
         @ RESET @ [NL] \<and>
     BLUE = CHR 0x1B # ''[0;36m'' \<and> YELLOW = CHR 0x1B # ''[0;33m'' \<and> RED = CHR 0x1B # ''[0;31m'' \<and>
     BOLD = CHR 0x1B # ''[1m'' \<and> RESET = CHR 0x1B # ''[0m'' \<and> NL = CHR 0x0A"
proof -
  obtain d where d: "format_date lg = Return d"
    using format_date_total by blast
  then have d': "format_date (lg\<lparr>log_level := v\<rparr>) = Return d"
    by (simp only: format_date_level)
  have r: "date_in_range (date lg) \<longrightarrow>
        d = zero_pad2 (py_str (day (date lg))) @ ''/'' @ zero_pad2 (py_str (month (date lg)))
              @ ''/'' @ py_str (year (date lg))"
    using d format_date_in_range [of lg] by simp
  have c: "BLUE = CHR 0x1B # ''[0;36m'' \<and> YELLOW = CHR 0x1B # ''[0;33m''
      \<and> RED = CHR 0x1B # ''[0;31m'' \<and> BOLD = CHR 0x1B # ''[1m'' \<and> RESET = CHR 0x1B # ''[0m''
      \<and> NL = CHR 0x0A"
    by (simp add: BLUE_def YELLOW_def RED_def BOLD_def RESET_def ESC_def NL_def)
  have f: "stdout (if log_to_file lg then write_to_file (lg\<lparr>log_level := v\<rparr>) msg w else w)
             = stdout w"
    by (simp add: write_to_file_fields)
  have o: "fst (info msg (lg\<lparr>log_level := v\<rparr>) w) = Return () \<and>
     stdout (snd (snd (info msg (lg\<lparr>log_level := v\<rparr>) w))) =
       stdout w @ BLUE @ BOLD @ ''['' @ d @ ''] INFO:'' @ RESET @ BLUE @ '' '' @ msg @ [NL]
         @ RESET @ [NL] \<and>
     fst (warning msg (lg\<lparr>log_level := v\<rparr>) w) = Return () \<and>
     stdout (snd (snd (warning msg (lg\<lparr>log_level := v\<rparr>) w))) =
       stdout w @ YELLOW @ BOLD @ ''['' @ d @ ''] WARNING:'' @ RESET @ YELLOW @ '' '' @ msg @ [NL]
         @ RESET @ [NL] \<and>
     fst (error msg (lg\<lparr>log_level := v\<rparr>) w) = Return () \<and>
     stdout (snd (snd (error msg (lg\<lparr>log_level := v\<rparr>) w))) =
       stdout w @ RED @ BOLD @ ''['' @ d @ ''] ERROR:'' @ RESET @ RED @ '' '' @ msg @ [NL]
         @ RESET @ [NL]"
    using f
    by (simp add: info_outcome [OF d'] warning_outcome [OF d'] error_outcome [OF d']
        py_print_fields)
  from d r o c show ?thesis
    by blast
qed

theorem emit_console_output_witness:
  "date_in_range \<lparr>day = 5, month = 3, year = 2024\<rparr>
   \<and> stdout (snd (snd (warning ''disk full''
      \<lparr>log_level = Level Error, log_to_file = False,
        date = \<lparr>day = 5, month = 3, year = 2024\<rparr>, filename = ''logs.txt''\<rparr>
      \<lparr>stdout = ''$ '', files = map_of []\<rparr>)))
   = ''$ '' @ CHR 0x1B # ''[0;33m'' @ CHR 0x1B # ''[1m[05/03/2024] WARNING:'' @ CHR 0x1B # ''[0m''
       @ CHR 0x1B # ''[0;33m disk full'' @ CHR 0x0A # CHR 0x1B # ''[0m'' @ [CHR 0x0A]
   \<and> date_in_range \<lparr>day = 25, month = 12, year = 2023\<rparr>
   \<and> stdout (snd (snd (info ''up''
      \<lparr>log_level = Level Warning, log_to_file = False,
        date = \<lparr>day = 25, month = 12, year = 2023\<rparr>, filename = ''logs.txt''\<rparr>
      \<lparr>stdout = [], files = map_of []\<rparr>)))
   = CHR 0x1B # ''[0;36m'' @ CHR 0x1B # ''[1m[25/12/2023] INFO:'' @ CHR 0x1B # ''[0m''
       @ CHR 0x1B # ''[0;36m up'' @ CHR 0x0A # CHR 0x1B # ''[0m'' @ [CHR 0x0A]"
  using
    emit_console_output
      [of "init None None \<lparr>day = 5, month = 3, year = 2024\<rparr>" "''disk full''" "Level Error"
          "\<lparr>stdout = ''$ '', files = map_of []\<rparr>"]
    emit_console_output
      [of "init None None \<lparr>day = 25, month = 12, year = 2023\<rparr>" "''up''" "Level Warning"
          "\<lparr>stdout = [], files = map_of []\<rparr>"]
  by (simp add: eval_defs date_in_range_def zero_pad2_def)

subsection \<open>C3: \<^verbatim>\<open>log\<close> dispatches on the current level\<close>

text \<open>
  C3. For every message, logger and world: when the current level is \<^verbatim>\<open>Info\<close>,
  \<^verbatim>\<open>Warning\<close> or \<^verbatim>\<open>Error\<close>, the outcome of \<^verbatim>\<open>log\<close> (result, logger, console
  and files) is the outcome of \<^verbatim>\<open>info\<close>, \<^verbatim>\<open>warning\<close> or \<^verbatim>\<open>error\<close> respectively.
\<close>

theorem log_dispatch:
  "(log_level lg = Level Info \<longrightarrow> log msg lg w = info msg lg w) \<and>
   (log_level lg = Level Warning \<longrightarrow> log msg lg w = warning msg lg w) \<and>
   (log_level lg = Level Error \<longrightarrow> log msg lg w = error msg lg w)"
  by (simp add: log_def)

theorem log_dispatch_witness:
  "log ''hello'' (init (Some (Level Info)) (Some True) \<lparr>day = 5, month = 3, year = 2024\<rparr>)
       \<lparr>stdout = [], files = map_of []\<rparr>
   = info ''hello'' (init (Some (Level Info)) (Some True) \<lparr>day = 5, month = 3, year = 2024\<rparr>)
       \<lparr>stdout = [], files = map_of []\<rparr>
   \<and> log ''hello'' (init (Some (Level Warning)) (Some True) \<lparr>day = 5, month = 3, year = 2024\<rparr>)
       \<lparr>stdout = [], files = map_of []\<rparr>
   = warning ''hello'' (init (Some (Level Warning)) (Some True) \<lparr>day = 5, month = 3, year = 2024\<rparr>)
       \<lparr>stdout = [], files = map_of []\<rparr>
   \<and> log ''hello'' (init (Some (Level Error)) (Some True) \<lparr>day = 5, month = 3, year = 2024\<rparr>)
       \<lparr>stdout = [], files = map_of []\<rparr>
   = error ''hello'' (init (Some (Level Error)) (Some True) \<lparr>day = 5, month = 3, year = 2024\<rparr>)
       \<lparr>stdout = [], files = map_of []\<rparr>
   \<and> stdout (snd (snd (log ''hello''
         (init (Some (Level Warning)) (Some True) \<lparr>day = 5, month = 3, year = 2024\<rparr>)
         \<lparr>stdout = [], files = map_of []\<rparr>)))
     = CHR 0x1B # ''[0;33m'' @ CHR 0x1B # ''[1m[05/03/2024] WARNING:'' @ CHR 0x1B # ''[0m''
       @ CHR 0x1B # ''[0;33m hello'' @ CHR 0x0A # CHR 0x1B # ''[0m'' @ [CHR 0x0A]"
  using
    log_dispatch [of "init (Some (Level Info)) (Some True) \<lparr>day = 5, month = 3, year = 2024\<rparr>"
      "''hello''" "\<lparr>stdout = [], files = map_of []\<rparr>"]
    log_dispatch [of "init (Some (Level Warning)) (Some True) \<lparr>day = 5, month = 3, year = 2024\<rparr>"
      "''hello''" "\<lparr>stdout = [], files = map_of []\<rparr>"]
    log_dispatch [of "init (Some (Level Error)) (Some True) \<lparr>day = 5, month = 3, year = 2024\<rparr>"
      "''hello''" "\<lparr>stdout = [], files = map_of []\<rparr>"]
  by (simp add: eval_defs)

subsection \<open>C4: \<^verbatim>\<open>reset\<close>\<close>

text \<open>
  C4. For every logger and world, \<^verbatim>\<open>reset\<close> returns normally and leaves the current
  level at \<^verbatim>\<open>Info\<close>; after \<^verbatim>\<open>reset\<close> and any further calls \<open>cs\<close> of the public
  methods among which none sets the level (no \<^verbatim>\<open>reset\<close>, no \<^verbatim>\<open>set_level\<close>), the level
  is still \<^verbatim>\<open>Info\<close> and the outcome of \<^verbatim>\<open>log\<close> is the outcome of \<^verbatim>\<open>info\<close>, for
  every message.
\<close>

theorem reset_then_log_is_info:
  assumes "keep_level cs"
    and "run (Reset # cs) lg w = (r, lg', w')"
  shows "fst (reset lg w) = Return ()
       \<and> log_level (fst (snd (reset lg w))) = Level Info
       \<and> log_level lg' = Level Info
       \<and> log msg lg' w' = info msg lg' w'"
proof -
  have "run cs (lg\<lparr>log_level := Level Info\<rparr>) w = (r, lg', w')"
    using assms(2) by (simp add: reset_def)
  then have "log_level lg' = Level Info"
    using run_keeps_level [OF assms(1), of "lg\<lparr>log_level := Level Info\<rparr>" w] by simp
  then show ?thesis
    by (simp add: reset_def log_def)
qed

theorem reset_then_log_is_info_witness:
  "keep_level [Enable_file_logging, Clean_logs]
   \<and> run [Reset, Enable_file_logging, Clean_logs]
        (init (Some (Level Error)) None \<lparr>day = 5, month = 3, year = 2024\<rparr>)
        \<lparr>stdout = [], files = map_of []\<rparr>
      = (Return (),
         \<lparr>log_level = Level Info, log_to_file = True,
          date = \<lparr>day = 5, month = 3, year = 2024\<rparr>, filename = ''logs.txt''\<rparr>,
         \<lparr>stdout = [], files = map_of []\<rparr>)
   \<and> log ''c''
        \<lparr>log_level = Level Info, log_to_file = True,
          date = \<lparr>day = 5, month = 3, year = 2024\<rparr>, filename = ''logs.txt''\<rparr>
        \<lparr>stdout = [], files = map_of []\<rparr>
     = info ''c''
        \<lparr>log_level = Level Info, log_to_file = True,
          date = \<lparr>day = 5, month = 3, year = 2024\<rparr>, filename = ''logs.txt''\<rparr>
        \<lparr>stdout = [], files = map_of []\<rparr>"
proof -
  have k: "keep_level [Enable_file_logging, Clean_logs]"
    by simp
  have r: "run [Reset, Enable_file_logging, Clean_logs]
        (init (Some (Level Error)) None \<lparr>day = 5, month = 3, year = 2024\<rparr>)
        \<lparr>stdout = [], files = map_of []\<rparr>
      = (Return (),
         \<lparr>log_level = Level Info, log_to_file = True,
          date = \<lparr>day = 5, month = 3, year = 2024\<rparr>, filename = ''logs.txt''\<rparr>,
         \<lparr>stdout = [], files = map_of []\<rparr>)"
    by (simp add: init_def reset_def enable_file_logging_def clean_logs_def)
  show ?thesis
    using k r reset_then_log_is_info [OF k r, of "''c''"] by blast
qed

subsection \<open>C5: the date format\<close>

text \<open>
  C5. For every date within the ranges of \<^verbatim>\<open>datetime\<close>, \<^verbatim>\<open>__format_date\<close> returns the
  day padded with zeros to two characters, a slash, the month padded likewise, a slash,
  and the decimal numeral of the year as it is; the padded day and month have exactly two
  characters. A logger created on 5 March 2024 formats its date as \<open>05/03/2024\<close>, one
  created on 25 December 2023 as \<open>25/12/2023\<close>.
\<close>

theorem format_date_zero_padded:
  "(date_in_range (date lg) \<longrightarrow>
      format_date lg =
        Return (zero_pad2 (py_str (day (date lg))) @ ''/'' @ zero_pad2 (py_str (month (date lg)))
                @ ''/'' @ py_str (year (date lg)))
      \<and> length (zero_pad2 (py_str (day (date lg)))) = 2
      \<and> length (zero_pad2 (py_str (month (date lg)))) = 2)
   \<and> (date lg = \<lparr>day = 5, month = 3, year = 2024\<rparr> \<longrightarrow> format_date lg = Return ''05/03/2024'')
   \<and> (date lg = \<lparr>day = 25, month = 12, year = 2023\<rparr> \<longrightarrow> format_date lg = Return ''25/12/2023'')"
proof (intro conjI impI)
  assume r: "date_in_range (date lg)"
  then have d: "0 \<le> day (date lg)" "day (date lg) < 100"
    and m: "0 \<le> month (date lg)" "month (date lg) < 100"
    by (simp_all add: date_in_range_def)
  show "format_date lg =
        Return (zero_pad2 (py_str (day (date lg))) @ ''/'' @ zero_pad2 (py_str (month (date lg)))
                @ ''/'' @ py_str (year (date lg)))"
    by (simp only: format_date_Return zero_pad2_py_str [OF d(1)] zero_pad2_py_str [OF m(1)])
  show "length (zero_pad2 (py_str (day (date lg)))) = 2"
    by (rule length_zero_pad2_py_str [OF d])
  show "length (zero_pad2 (py_str (month (date lg)))) = 2"
    by (rule length_zero_pad2_py_str [OF m])
next
  assume "date lg = \<lparr>day = 5, month = 3, year = 2024\<rparr>"
  then show "format_date lg = Return ''05/03/2024''"
    by (simp add: format_date_Return py_str_def str_nat.simps digit_char_def)
next
  assume "date lg = \<lparr>day = 25, month = 12, year = 2023\<rparr>"
  then show "format_date lg = Return ''25/12/2023''"
    by (simp add: format_date_Return py_str_def str_nat.simps digit_char_def)
qed

theorem format_date_zero_padded_witness:
  "date_in_range \<lparr>day = 5, month = 3, year = 2024\<rparr>
   \<and> format_date (init None None \<lparr>day = 5, month = 3, year = 2024\<rparr>) = Return ''05/03/2024''
   \<and> zero_pad2 (py_str 5) = ''05'' \<and> zero_pad2 (py_str 3) = ''03'' \<and> py_str 2024 = ''2024''
   \<and> date_in_range \<lparr>day = 25, month = 12, year = 2023\<rparr>
   \<and> format_date (init None None \<lparr>day = 25, month = 12, year = 2023\<rparr>) = Return ''25/12/2023''
   \<and> zero_pad2 (py_str 25) = ''25'' \<and> zero_pad2 (py_str 12) = ''12''
   \<and> date_in_range \<lparr>day = 1, month = 1, year = 800\<rparr>
   \<and> format_date (init None None \<lparr>day = 1, month = 1, year = 800\<rparr>) = Return ''01/01/800''"
  using
    format_date_zero_padded [of "init None None \<lparr>day = 5, month = 3, year = 2024\<rparr>"]
    format_date_zero_padded [of "init None None \<lparr>day = 25, month = 12, year = 2023\<rparr>"]
    format_date_zero_padded [of "init None None \<lparr>day = 1, month = 1, year = 800\<rparr>"]
  by (simp add: init_def date_in_range_def zero_pad2_def py_str_def str_nat.simps digit_char_def)

subsection \<open>C6: stripping the escape sequences\<close>




subsection \<open>C7: \<^verbatim>\<open>clean_logs\<close>\<close>

text \<open>
  C7. \<^verbatim>\<open>clean_logs\<close> returns normally, changes nothing but the binding of the log
  file's path, and leaves that path unbound: an existing log file is deleted, and when
  the file does not exist the call is a no-op that raises nothing and creates nothing
  (logger and world come back as they were).
\<close>

theorem clean_logs_deletes_or_noop:
  "fst (clean_logs lg w) = Return ()
   \<and> fst (snd (clean_logs lg w)) = lg
   \<and> stdout (snd (snd (clean_logs lg w))) = stdout w
   \<and> files (snd (snd (clean_logs lg w))) = (files w)(filename lg := None)
   \<and> files (snd (snd (clean_logs lg w))) (filename lg) = None
   \<and> (files w (filename lg) = None \<longrightarrow> clean_logs lg w = (Return (), lg, w))"
  by (auto simp add: clean_logs_def)

theorem clean_logs_deletes_or_noop_witness:
  "files \<lparr>stdout = [], files = map_of [(''logs.txt'', ''old''), (''other'', ''x'')]\<rparr> ''logs.txt''
     = Some ''old''
   \<and> files (snd (snd (clean_logs (init None None \<lparr>day = 5, month = 3, year = 2024\<rparr>)
        \<lparr>stdout = [], files = map_of [(''logs.txt'', ''old''), (''other'', ''x'')]\<rparr>))) ''logs.txt''
     = None
   \<and> files (snd (snd (clean_logs (init None None \<lparr>day = 5, month = 3, year = 2024\<rparr>)
        \<lparr>stdout = [], files = map_of [(''logs.txt'', ''old''), (''other'', ''x'')]\<rparr>))) ''other''
     = Some ''x''
   \<and> files \<lparr>stdout = [], files = map_of [(''other'', ''x'')]\<rparr> ''logs.txt'' = None
   \<and> clean_logs (init None None \<lparr>day = 5, month = 3, year = 2024\<rparr>)
        \<lparr>stdout = [], files = map_of [(''other'', ''x'')]\<rparr>
     = (Return (), init None None \<lparr>day = 5, month = 3, year = 2024\<rparr>,
        \<lparr>stdout = [], files = map_of [(''other'', ''x'')]\<rparr>)"
  using
    clean_logs_deletes_or_noop [of "init None None \<lparr>day = 5, month = 3, year = 2024\<rparr>"
      "\<lparr>stdout = [], files = map_of [(''logs.txt'', ''old''), (''other'', ''x'')]\<rparr>"]
    clean_logs_deletes_or_noop [of "init None None \<lparr>day = 5, month = 3, year = 2024\<rparr>"
      "\<lparr>stdout = [], files = map_of [(''other'', ''x'')]\<rparr>"]
  by (simp add: init_def)

subsection \<open>C8: \<^verbatim>\<open>set_level\<close>\<close>

text \<open>
  C8. Given a value that is none of \<^verbatim>\<open>LogLevel.Info\<close>, \<^verbatim>\<open>LogLevel.Warning\<close>,
  \<^verbatim>\<open>LogLevel.Error\<close>, \<^verbatim>\<open>set_level\<close> raises \<^verbatim>\<open>ValueError\<close> (the specification's
  InvalidSeverity) and leaves the logger, its current level included, and the world as
  they were. Given one of the three levels it returns normally with the current level
  set to it, and the next \<^verbatim>\<open>log\<close> is the emit method of that level.
\<close>

theorem set_level_contract:
  "((\<forall>l. lvl \<noteq> Level l) \<longrightarrow> set_level lvl lg w = (Raise ValueError, lg, w))
   \<and> set_level (Level l) lg w = (Return (), lg\<lparr>log_level := Level l\<rparr>, w)
   \<and> log_level (fst (snd (set_level (Level l) lg w))) = Level l
   \<and> log msg (fst (snd (set_level (Level Info) lg w))) w'
        = info msg (fst (snd (set_level (Level Info) lg w))) w'
   \<and> log msg (fst (snd (set_level (Level Warning) lg w))) w'
        = warning msg (fst (snd (set_level (Level Warning) lg w))) w'
   \<and> log msg (fst (snd (set_level (Level Error) lg w))) w'
        = error msg (fst (snd (set_level (Level Error) lg w))) w'"
proof -
  have "set_level (Level l) lg w = (Return (), lg\<lparr>log_level := Level l\<rparr>, w)" for l
    by (cases l) (simp_all add: set_level_def)
  moreover have "(\<forall>l. lvl \<noteq> Level l) \<longrightarrow> set_level lvl lg w = (Raise ValueError, lg, w)"
    by (simp add: set_level_def)
  ultimately show ?thesis
    by (simp add: log_def)
qed

theorem set_level_contract_witness:
  "set_level (PyStr ''debug'') (init None None \<lparr>day = 5, month = 3, year = 2024\<rparr>)
       \<lparr>stdout = [], files = map_of []\<rparr>
     = (Raise ValueError, init None None \<lparr>day = 5, month = 3, year = 2024\<rparr>,
        \<lparr>stdout = [], files = map_of []\<rparr>)
   \<and> set_level (Level Error) (init None None \<lparr>day = 5, month = 3, year = 2024\<rparr>)
       \<lparr>stdout = [], files = map_of []\<rparr>
     = (Return (),
        \<lparr>log_level = Level Error, log_to_file = False,
          date = \<lparr>day = 5, month = 3, year = 2024\<rparr>, filename = ''logs.txt''\<rparr>,
        \<lparr>stdout = [], files = map_of []\<rparr>)
   \<and> log ''x''
        \<lparr>log_level = Level Error, log_to_file = False,
          date = \<lparr>day = 5, month = 3, year = 2024\<rparr>, filename = ''logs.txt''\<rparr>
        \<lparr>stdout = [], files = map_of []\<rparr>
     = error ''x''
        \<lparr>log_level = Level Error, log_to_file = False,
          date = \<lparr>day = 5, month = 3, year = 2024\<rparr>, filename = ''logs.txt''\<rparr>
        \<lparr>stdout = [], files = map_of []\<rparr>"
  using set_level_contract
    [of "PyStr ''debug''" "init None None \<lparr>day = 5, month = 3, year = 2024\<rparr>"
        "\<lparr>stdout = [], files = map_of []\<rparr>" Error "''x''" "\<lparr>stdout = [], files = map_of []\<rparr>"]
  by (simp add: init_def set_level_def)

subsection \<open>C9: no mirroring, no file access\<close>

text \<open>
  C9. A logger constructed without the \<^verbatim>\<open>log_to_file\<close> argument has mirroring disabled,
  and for every message, when mirroring is disabled, \<^verbatim>\<open>info\<close>, \<^verbatim>\<open>warning\<close>,
  \<^verbatim>\<open>error\<close> and \<^verbatim>\<open>log\<close> leave the file system exactly as it was: no file is created,
  written or removed.
\<close>

theorem no_mirroring_no_file_access:
  "log_to_file (init lvl None now) = False
   \<and> (\<not> log_to_file lg \<longrightarrow>
        files (snd (snd (info msg lg w))) = files w
      \<and> files (snd (snd (warning msg lg w))) = files w
      \<and> files (snd (snd (error msg lg w))) = files w
      \<and> files (snd (snd (log msg lg w))) = files w)"
proof -
  obtain d where d: "format_date lg = Return d"
    using format_date_total by blast
  show ?thesis
    by (simp add: init_def log_def info_outcome [OF d] warning_outcome [OF d]
        error_outcome [OF d] py_print_fields)
qed

theorem no_mirroring_no_file_access_witness:
  "log_to_file (init None None \<lparr>day = 5, month = 3, year = 2024\<rparr>) = False
   \<and> files (snd (snd (info ''hello'' (init None None \<lparr>day = 5, month = 3, year = 2024\<rparr>)
        \<lparr>stdout = [], files = map_of []\<rparr>))) ''logs.txt'' = None
   \<and> files (snd (snd (log ''hello'' (init None None \<lparr>day = 5, month = 3, year = 2024\<rparr>)
        \<lparr>stdout = [], files = map_of []\<rparr>))) = map_of []"
  using no_mirroring_no_file_access
    [of None "\<lparr>day = 5, month = 3, year = 2024\<rparr>"
        "init None None \<lparr>day = 5, month = 3, year = 2024\<rparr>" "''hello''"
        "\<lparr>stdout = [], files = map_of []\<rparr>"]
  by (simp add: init_def)

subsection \<open>C10: which calls change the logger\<close>

text \<open>
  C10. \<^verbatim>\<open>info\<close>, \<^verbatim>\<open>warning\<close>, \<^verbatim>\<open>error\<close> and \<^verbatim>\<open>log\<close> return the logger they were
  given: level, mirroring flag, creation date and file path are unchanged. More
  generally every call of a public method other than \<^verbatim>\<open>set_level\<close>, \<^verbatim>\<open>reset\<close>,
  \<^verbatim>\<open>enable_file_logging\<close> and \<^verbatim>\<open>disable_file_logging\<close> leaves the logger unchanged.
\<close>

theorem emit_leaves_logger_unchanged:
  "fst (snd (info msg lg w)) = lg
   \<and> fst (snd (warning msg lg w)) = lg
   \<and> fst (snd (error msg lg w)) = lg
   \<and> fst (snd (log msg lg w)) = lg
   \<and> (\<not> mutator c \<longrightarrow> fst (snd (do_call c lg w)) = lg)"
proof -
  have "\<not> mutator c \<longrightarrow> fst (snd (do_call c lg w)) = lg"
    by (cases c) (simp_all add: emit_keeps_logger clean_logs_def)
  then show ?thesis
    by (simp add: emit_keeps_logger)
qed

theorem emit_leaves_logger_unchanged_witness:
  "fst (snd (warning ''hello''
      \<lparr>log_level = Level Error, log_to_file = True,
        date = \<lparr>day = 5, month = 3, year = 2024\<rparr>, filename = ''logs.txt''\<rparr>
      \<lparr>stdout = [], files = map_of []\<rparr>))
     = \<lparr>log_level = Level Error, log_to_file = True,
        date = \<lparr>day = 5, month = 3, year = 2024\<rparr>, filename = ''logs.txt''\<rparr>
   \<and> mutator Clean_logs = False
   \<and> fst (snd (do_call Clean_logs
      \<lparr>log_level = Level Error, log_to_file = True,
        date = \<lparr>day = 5, month = 3, year = 2024\<rparr>, filename = ''logs.txt''\<rparr>
      \<lparr>stdout = [], files = map_of [(''logs.txt'', ''old'')]\<rparr>))
     = \<lparr>log_level = Level Error, log_to_file = True,
        date = \<lparr>day = 5, month = 3, year = 2024\<rparr>, filename = ''logs.txt''\<rparr>"
  using
    emit_leaves_logger_unchanged
      [of "''hello''"
        "\<lparr>log_level = Level Error, log_to_file = True,
          date = \<lparr>day = 5, month = 3, year = 2024\<rparr>, filename = ''logs.txt''\<rparr>"
        "\<lparr>stdout = [], files = map_of []\<rparr>" Clean_logs]
    emit_leaves_logger_unchanged
      [of "''hello''"
        "\<lparr>log_level = Level Error, log_to_file = True,
          date = \<lparr>day = 5, month = 3, year = 2024\<rparr>, filename = ''logs.txt''\<rparr>"
        "\<lparr>stdout = [], files = map_of [(''logs.txt'', ''old'')]\<rparr>" Clean_logs]
  by simp

end
